theory Spec2Isabelle
  imports Main "HOL-Library.Sublist"
begin

section \<open>Python values shared by the four modules\<close>

text \<open>
  A Python \<open>str\<close> is modelled as the list of the bytes of its UTF-8 encoding, so a literal
  of the source that holds a symbol beyond ASCII is written byte by byte. Concatenation,
  equality and the search for an ASCII pattern are the same on both sides of the encoding.

  \<open>exn\<close> stands for an instance of a subclass of Python's \<open>Exception\<close>, which is what
  the \<open>except Exception\<close> clauses of the source catch; the classes the source names or
  provokes have a constructor of their own and \<open>OtherError\<close> is any other class.
  A function of the source that can raise returns \<open>exn + 'a\<close>, with \<open>Inl\<close> the raise.
\<close>

datatype exn =
    ValueError string
  | AttributeError string
  | OperationalError string
  | OtherError string

fun exn_str :: "exn \<Rightarrow> string" where
  "exn_str (ValueError m) = m"
| "exn_str (AttributeError m) = m"
| "exn_str (OperationalError m) = m"
| "exn_str (OtherError m) = m"

text \<open>\<open>try: body  except Exception as e: return handler(e)\<close>\<close>

definition try_except :: "exn + 'a \<Rightarrow> (exn \<Rightarrow> 'a) \<Rightarrow> exn + 'a" where
  "try_except body handler = (case body of Inl e \<Rightarrow> Inr (handler e) | Inr v \<Rightarrow> Inr v)"

text \<open>
  The code points for which \<open>str.isspace\<close> holds, each as its UTF-8 bytes: the ASCII
  controls 09-0D and 1C-1F, the space, U+0085, U+00A0, U+1680, U+2000-U+200A, U+2028,
  U+2029, U+202F, U+205F and U+3000.
\<close>

definition py_whitespace :: "string list" where
  "py_whitespace =
    [[CHR 0x09], [CHR 0x0A], [CHR 0x0B], [CHR 0x0C], [CHR 0x0D],
     [CHR 0x1C], [CHR 0x1D], [CHR 0x1E], [CHR 0x1F], [CHR 0x20],
     [CHR 0xC2, CHR 0x85], [CHR 0xC2, CHR 0xA0], [CHR 0xE1, CHR 0x9A, CHR 0x80],
     [CHR 0xE2, CHR 0x80, CHR 0x80], [CHR 0xE2, CHR 0x80, CHR 0x81],
     [CHR 0xE2, CHR 0x80, CHR 0x82], [CHR 0xE2, CHR 0x80, CHR 0x83],
     [CHR 0xE2, CHR 0x80, CHR 0x84], [CHR 0xE2, CHR 0x80, CHR 0x85],
     [CHR 0xE2, CHR 0x80, CHR 0x86], [CHR 0xE2, CHR 0x80, CHR 0x87],
     [CHR 0xE2, CHR 0x80, CHR 0x88], [CHR 0xE2, CHR 0x80, CHR 0x89],
     [CHR 0xE2, CHR 0x80, CHR 0x8A], [CHR 0xE2, CHR 0x80, CHR 0xA8],
     [CHR 0xE2, CHR 0x80, CHR 0xA9], [CHR 0xE2, CHR 0x80, CHR 0xAF],
     [CHR 0xE2, CHR 0x81, CHR 0x9F], [CHR 0xE3, CHR 0x80, CHR 0x80]]"

text \<open>The length of the white-space code point a string starts with, 0 when it starts with none.\<close>

definition leading_space :: "string \<Rightarrow> nat" where
  "leading_space s = (case filter (\<lambda>w. prefix w s) py_whitespace of [] \<Rightarrow> 0 | w # _ \<Rightarrow> length w)"

definition trailing_space :: "string \<Rightarrow> nat" where
  "trailing_space s = (case filter (\<lambda>w. suffix w s) py_whitespace of [] \<Rightarrow> 0 | w # _ \<Rightarrow> length w)"

text \<open>\<open>str.lstrip()\<close>, \<open>str.rstrip()\<close> and \<open>str.strip()\<close> with no argument. The fuel is the
  length of the string, which bounds the number of code points removed.\<close>

fun lstrip_fuel :: "nat \<Rightarrow> string \<Rightarrow> string" where
  "lstrip_fuel 0 s = s"
| "lstrip_fuel (Suc n) s =
     (if leading_space s = 0 then s else lstrip_fuel n (drop (leading_space s) s))"

fun rstrip_fuel :: "nat \<Rightarrow> string \<Rightarrow> string" where
  "rstrip_fuel 0 s = s"
| "rstrip_fuel (Suc n) s =
     (if trailing_space s = 0 then s
      else rstrip_fuel n (take (length s - trailing_space s) s))"

definition py_strip :: "string \<Rightarrow> string" where
  "py_strip s = (let l = lstrip_fuel (length s) s in rstrip_fuel (length l) l)"

text \<open>
  \<open>s.replace(old, new)\<close>: the occurrences of \<open>old\<close> are replaced from left to right
  without overlap; an empty \<open>old\<close> matches before every character and at the end.
\<close>

function py_replace :: "string \<Rightarrow> string \<Rightarrow> string \<Rightarrow> string" where
  "py_replace old new [] = (if old = [] then new else [])"
| "py_replace old new (c # cs) =
     (if old = [] then new @ c # py_replace old new cs
      else if prefix old (c # cs)
        then new @ py_replace old new (drop (length old) (c # cs))
      else c # py_replace old new cs)"
  by pat_completeness auto
termination
  by (relation "measure (\<lambda>(old, new, s). length s)") auto

text \<open>\<open>sep.join(xs)\<close>\<close>

fun py_join :: "string \<Rightarrow> string list \<Rightarrow> string" where
  "py_join sep [] = []"
| "py_join sep [x] = x"
| "py_join sep (x # y # ys) = x @ sep @ py_join sep (y # ys)"

text \<open>\<open>str(n)\<close> for a non-negative integer, as the f-strings of the source format an index.\<close>

definition digit_char :: "nat \<Rightarrow> char" where
  "digit_char d = char_of (48 + d)"

fun str_of_nat :: "nat \<Rightarrow> string" where
  "str_of_nat n =
     (if n < 10 then [digit_char n] else str_of_nat (n div 10) @ [digit_char (n mod 10)])"

text \<open>\<open>xs[:n]\<close>: a negative bound counts from the end, and the slice never raises.\<close>

definition py_slice_to :: "'a list \<Rightarrow> int \<Rightarrow> 'a list" where
  "py_slice_to xs n = (if 0 \<le> n then take (nat n) xs else take (nat (int (length xs) + n)) xs)"

text \<open>\<open>s[:n]\<close> on a string counts code points: a byte from 80 to BF continues the
  code point before it.\<close>

definition is_continuation :: "char \<Rightarrow> bool" where
  "is_continuation c = (128 \<le> (of_char c :: nat) \<and> (of_char c :: nat) < 192)"

definition py_len :: "string \<Rightarrow> nat" where
  "py_len s = length (filter (\<lambda>c. \<not> is_continuation c) s)"

fun utf8_take :: "nat \<Rightarrow> string \<Rightarrow> string" where
  "utf8_take n [] = []"
| "utf8_take n (c # cs) =
     (if is_continuation c then c # utf8_take n cs
      else (case n of 0 \<Rightarrow> [] | Suc m \<Rightarrow> c # utf8_take m cs))"

definition py_str_slice_to :: "string \<Rightarrow> int \<Rightarrow> string" where
  "py_str_slice_to s n =
     (if 0 \<le> n then utf8_take (nat n) s else utf8_take (nat (int (py_len s) + n)) s)"

text \<open>The truth value of an optional string: \<open>None\<close> and the empty string are false.\<close>

definition truthy :: "string option \<Rightarrow> bool" where
  "truthy k = (case k of None \<Rightarrow> False | Some s \<Rightarrow> s \<noteq> [])"


section \<open>web\_search.py\<close>

text \<open>
  The two search tools are external. A tool is invoked with the query text itself
  (\<open>invoke(query)\<close>), with \<open>{"query": q}\<close> or with \<open>{"query": q, "include_domains": ds}\<close>,
  and it raises or returns a value: a list of result dictionaries or a string. The search
  methods return such a value too: the text they format, or what the tool gave.
\<close>

datatype tool = TavilySearchResults | DuckDuckGoSearchRun

datatype tool_input =
    QueryText string
  | QueryDict string
  | QueryDomainsDict string "string list"

type_synonym result_dict = "(string \<times> string) list"

datatype py_value = Hits "result_dict list" | Blob string

type_synonym search_tools = "tool \<Rightarrow> tool_input \<Rightarrow> exn + py_value"

text \<open>The query text a request carries.\<close>

fun request_query :: "tool_input \<Rightarrow> string" where
  "request_query (QueryText q) = q"
| "request_query (QueryDict q) = q"
| "request_query (QueryDomainsDict q ds) = q"

text \<open>
  The attributes of \<open>WebSearchSystem\<close> that the search methods read. \<open>search_tool\<close> is
  assigned once, in \<open>__init__\<close>, from the other two and never again, so it is a function
  of them here. The model client \<open>llm\<close> and the prompt are used by \<open>search_and_answer\<close> only.
\<close>

record web_search_system =
  search_provider :: string
  tavily_api_key :: "string option"

definition search_tool :: "web_search_system \<Rightarrow> tool" where
  "search_tool sys =
     (if search_provider sys = ''tavily'' \<and> truthy (tavily_api_key sys)
      then TavilySearchResults else DuckDuckGoSearchRun)"

definition create_web_search_system :: "string option \<Rightarrow> string \<Rightarrow> web_search_system" where
  "create_web_search_system key provider = \<lparr>search_provider = provider, tavily_api_key = key\<rparr>"

text \<open>\<open>result.get(key, default)\<close> on a result dictionary.\<close>

definition dict_get :: "result_dict \<Rightarrow> string \<Rightarrow> string \<Rightarrow> string" where
  "dict_get d k dflt = (case map_of d k of None \<Rightarrow> dflt | Some v \<Rightarrow> v)"

definition format_result :: "nat \<Rightarrow> result_dict \<Rightarrow> string" where
  "format_result idx result =
     [CHR 0x0A] @ str_of_nat idx @ ''. '' @ dict_get result ''title'' ''No title'' @ [CHR 0x0A]
     @ ''   URL: '' @ dict_get result ''url'' ''No URL'' @ [CHR 0x0A]
     @ ''   Content: '' @ dict_get result ''content'' ''No content'' @ [CHR 0x0A]"

text \<open>\<open>for idx, result in enumerate(results, 1): formatted_results += ...\<close>\<close>

fun format_hits :: "nat \<Rightarrow> result_dict list \<Rightarrow> string" where
  "format_hits idx [] = []"
| "format_hits idx (r # rs) = format_result idx r @ format_hits (Suc idx) rs"

text \<open>
  The loop over what the tool returned, after the slice when there is one. Over a string
  it iterates over characters, and the first \<open>result.get\<close> raises; over the empty string
  there is no iteration.
\<close>

definition str_has_no_get :: string where
  "str_has_no_get =
     [CHR 0x27] @ ''str'' @ [CHR 0x27] @ '' object has no attribute '' @ [CHR 0x27] @ ''get'' @ [CHR 0x27]"

definition format_results :: "py_value \<Rightarrow> exn + py_value" where
  "format_results out =
     (case out of
        Hits rs \<Rightarrow> Inr (Blob (format_hits 1 rs))
      | Blob s \<Rightarrow> if s = [] then Inr (Blob []) else Inl (AttributeError str_has_no_get))"

definition slice_output :: "py_value \<Rightarrow> int \<Rightarrow> py_value" where
  "slice_output out n =
     (case out of Hits rs \<Rightarrow> Hits (py_slice_to rs n) | Blob s \<Rightarrow> Blob (py_str_slice_to s n))"

text \<open>
  \<open>WebSearchSystem.search\<close>: the result and the requests sent to the tool, in order.
\<close>

definition search_request :: "web_search_system \<Rightarrow> string \<Rightarrow> tool_input" where
  "search_request sys query =
     (if search_provider sys = ''tavily'' then QueryDict query else QueryText query)"

definition search_try :: "search_tools \<Rightarrow> web_search_system \<Rightarrow> string \<Rightarrow> int \<Rightarrow> exn + py_value" where
  "search_try tools sys query max_results =
     (if search_provider sys = ''tavily'' then
        (case tools (search_tool sys) (QueryDict query) of
           Inl e \<Rightarrow> Inl e
         | Inr results \<Rightarrow> format_results (slice_output results max_results))
      else
        (case tools (search_tool sys) (QueryText query) of
           Inl e \<Rightarrow> Inl e
         | Inr results \<Rightarrow> Inr results))"

definition search :: "search_tools \<Rightarrow> web_search_system \<Rightarrow> string \<Rightarrow> int
    \<Rightarrow> (exn + py_value) \<times> (tool \<times> tool_input) list" where
  "search tools sys query max_results =
     (try_except (search_try tools sys query max_results)
        (\<lambda>e. Blob (''Search error: '' @ exn_str e)),
      [(search_tool sys, search_request sys query)])"

definition default_domains :: "string list" where
  "default_domains =
     [''pubmed.ncbi.nlm.nih.gov'', ''mayoclinic.org'', ''who.int'', ''cdc.gov'', ''nih.gov'',
      ''webmd.com'', ''medicalnewstoday.com'']"

definition medical_search :: "search_tools \<Rightarrow> web_search_system \<Rightarrow> string \<Rightarrow> string list option
    \<Rightarrow> (exn + py_value) \<times> (tool \<times> tool_input) list" where
  "medical_search tools sys query domains_arg =
     (let domains = (case domains_arg of None \<Rightarrow> default_domains | Some ds \<Rightarrow> ds) in
      if search_provider sys = ''tavily'' \<and> truthy (tavily_api_key sys) then
        (try_except
           (case tools (search_tool sys) (QueryDomainsDict query domains) of
              Inl e \<Rightarrow> Inl e
            | Inr results \<Rightarrow> format_results results)
           (\<lambda>e. Blob (''Medical search error: '' @ exn_str e)),
         [(search_tool sys, QueryDomainsDict query domains)])
      else
        (let modified_query = query @ '' '' @ py_join '' OR '' (map (\<lambda>domain. ''site:'' @ domain) domains)
         in search tools sys modified_query 5))"

section \<open>pdf\_rag.py\<close>

text \<open>
  The loader, the text splitter, the vector index and the retrieval chain are library
  objects; each is a parameter here. The index type \<open>'vs\<close> is left open: it is whatever
  \<open>FAISS.from_documents\<close> builds from a list of passages with the system's embeddings.
\<close>

record document =
  page_content :: string
  metadata :: "(string \<times> string) list"

text \<open>The dictionary the retrieval chain returns: the keys \<open>answer\<close> and \<open>context\<close>,
  either of which may be missing.\<close>

record response =
  resp_answer :: "string option"
  resp_context :: "document list option"

record 'vs pdf_env =
  pdf_loader :: "string \<Rightarrow> exn + document list"
  text_splitter :: "int \<Rightarrow> int \<Rightarrow> document list \<Rightarrow> exn + document list"
  faiss_from_documents :: "document list \<Rightarrow> exn + 'vs"
  chain_invoke :: "'vs \<Rightarrow> int \<Rightarrow> string \<Rightarrow> exn + response"

text \<open>A retrieval chain holds the retriever of the index it was set up over and its \<open>k\<close>.\<close>

record 'vs chain =
  chain_store :: 'vs
  chain_k :: int

record 'vs pdf_rag_system =
  vectorstore :: "'vs option"
  retrieval_chain :: "'vs chain option"

text \<open>\<open>PDFRAGSystem.__init__\<close>, the two attributes the methods change.\<close>

definition create_pdf_rag_system :: "'vs pdf_rag_system" where
  "create_pdf_rag_system = \<lparr>vectorstore = None, retrieval_chain = None\<rparr>"

definition load_pdf :: "'vs pdf_env \<Rightarrow> string \<Rightarrow> exn + document list" where
  "load_pdf env pdf_path = pdf_loader env pdf_path"

definition split_documents :: "'vs pdf_env \<Rightarrow> document list \<Rightarrow> int \<Rightarrow> int \<Rightarrow> exn + document list" where
  "split_documents env documents chunk_size chunk_overlap =
     text_splitter env chunk_size chunk_overlap documents"

text \<open>Every method returns its result and the system as the call leaves it.\<close>

definition create_vectorstore :: "'vs pdf_env \<Rightarrow> 'vs pdf_rag_system \<Rightarrow> document list
    \<Rightarrow> (exn + 'vs) \<times> 'vs pdf_rag_system" where
  "create_vectorstore env sys documents =
     (case faiss_from_documents env documents of
        Inl e \<Rightarrow> (Inl e, sys)
      | Inr vs \<Rightarrow> (Inr vs, sys\<lparr>vectorstore := Some vs\<rparr>))"

definition setup_retrieval_chain :: "'vs pdf_rag_system \<Rightarrow> int \<Rightarrow> (exn + unit) \<times> 'vs pdf_rag_system" where
  "setup_retrieval_chain sys k =
     (case vectorstore sys of
        None \<Rightarrow> (Inl (ValueError ''Vectorstore not initialized. Call create_vectorstore first.''), sys)
      | Some vs \<Rightarrow> (Inr (), sys\<lparr>retrieval_chain := Some \<lparr>chain_store = vs, chain_k = k\<rparr>\<rparr>))"

definition process_pdf :: "'vs pdf_env \<Rightarrow> 'vs pdf_rag_system \<Rightarrow> string \<Rightarrow> int \<Rightarrow> int \<Rightarrow> int
    \<Rightarrow> (exn + unit) \<times> 'vs pdf_rag_system" where
  "process_pdf env sys pdf_path chunk_size chunk_overlap k =
     (case load_pdf env pdf_path of
        Inl e \<Rightarrow> (Inl e, sys)
      | Inr documents \<Rightarrow>
          (case split_documents env documents chunk_size chunk_overlap of
             Inl e \<Rightarrow> (Inl e, sys)
           | Inr splits \<Rightarrow>
               (case create_vectorstore env sys splits of
                  (Inl e, sys1) \<Rightarrow> (Inl e, sys1)
                | (Inr vs, sys1) \<Rightarrow> setup_retrieval_chain sys1 k)))"

text \<open>\<open>process_pdf(path)\<close> with the defaults of its signature.\<close>

definition process_pdf_default :: "'vs pdf_env \<Rightarrow> 'vs pdf_rag_system \<Rightarrow> string
    \<Rightarrow> (exn + unit) \<times> 'vs pdf_rag_system" where
  "process_pdf_default env sys pdf_path = process_pdf env sys pdf_path 1000 200 5"

text \<open>\<open>PDFRAGSystem.query\<close>: the result and the questions handed to the chain, in order.\<close>

definition query :: "'vs pdf_env \<Rightarrow> 'vs pdf_rag_system \<Rightarrow> string \<Rightarrow> (exn + response) \<times> string list" where
  "query env sys question =
     (case retrieval_chain sys of
        None \<Rightarrow> (Inl (ValueError ''Retrieval chain not initialized. Call process_pdf first.''), [])
      | Some ch \<Rightarrow> (chain_invoke env (chain_store ch) (chain_k ch) question, [question]))"


section \<open>database.py\<close>

text \<open>
  The file \<open>patients.db\<close> holds at most the three tables this module creates, each with
  the columns of its \<open>CREATE TABLE\<close> statement. A table is its rows, in column order, and
  the \<open>AUTOINCREMENT\<close> counter SQLite keeps for it: the largest key ever given out.
  Opening the connection to the file always succeeds.
\<close>

datatype sql_value = SqlNull | SqlInt int | SqlText string

type_synonym row = "sql_value list"

record table =
  tbl_rows :: "row list"
  tbl_seq :: int

record database =
  patients :: "table option"
  medical_records :: "table option"
  appointments :: "table option"

definition empty_table :: table where
  "empty_table = \<lparr>tbl_rows = [], tbl_seq = 0\<rparr>"

text \<open>\<open>CREATE TABLE IF NOT EXISTS\<close>: the table after the statement.\<close>

definition create_table_if_not_exists :: "table option \<Rightarrow> table" where
  "create_table_if_not_exists t = (case t of None \<Rightarrow> empty_table | Some x \<Rightarrow> x)"

text \<open>An \<open>INSERT\<close> that names every column but the key and the columns in \<open>dflt\<close>, which
  take their default; \<open>executemany\<close> inserts the rows in order.\<close>

definition insert_row :: "row \<Rightarrow> table \<Rightarrow> row \<Rightarrow> table" where
  "insert_row dflt t vals =
     \<lparr>tbl_rows = tbl_rows t @ [SqlInt (tbl_seq t + 1) # vals @ dflt], tbl_seq = tbl_seq t + 1\<rparr>"

definition executemany :: "row \<Rightarrow> table \<Rightarrow> row list \<Rightarrow> table" where
  "executemany dflt t rows = foldl (insert_row dflt) t rows"

definition patients_data :: "string list list" where
  "patients_data =
    [[''Rajesh'', ''Kumar'', ''1985-03-15'', ''Male'', ''O+'', ''9876543210'',
      ''rajesh.kumar@email.com'', ''123 MG Road'', ''Bangalore'', ''Karnataka'', ''Priya Kumar'', ''9876543211''],
     [''Priya'', ''Sharma'', ''1990-07-22'', ''Female'', ''A+'', ''9876543212'',
      ''priya.sharma@email.com'', ''456 Park Street'', ''Mumbai'', ''Maharashtra'', ''Amit Sharma'', ''9876543213''],
     [''Amit'', ''Patel'', ''1978-11-08'', ''Male'', ''B+'', ''9876543214'',
      ''amit.patel@email.com'', ''789 Gandhi Nagar'', ''Ahmedabad'', ''Gujarat'', ''Neha Patel'', ''9876543215''],
     [''Neha'', ''Singh'', ''1995-05-30'', ''Female'', ''AB+'', ''9876543216'',
      ''neha.singh@email.com'', ''321 Lake View'', ''Delhi'', ''Delhi'', ''Vikram Singh'', ''9876543217''],
     [''Vikram'', ''Reddy'', ''1982-09-12'', ''Male'', ''O-'', ''9876543218'',
      ''vikram.reddy@email.com'', ''654 Beach Road'', ''Chennai'', ''Tamil Nadu'', ''Lakshmi Reddy'', ''9876543219''],
     [''Lakshmi'', ''Iyer'', ''1988-01-25'', ''Female'', ''A-'', ''9876543220'',
      ''lakshmi.iyer@email.com'', ''987 Temple Street'', ''Hyderabad'', ''Telangana'', ''Ramesh Iyer'', ''9876543221''],
     [''Ramesh'', ''Gupta'', ''1975-12-03'', ''Male'', ''B-'', ''9876543222'',
      ''ramesh.gupta@email.com'', ''147 River View'', ''Pune'', ''Maharashtra'', ''Anjali Gupta'', ''9876543223''],
     [''Anjali'', ''Mehta'', ''1992-08-17'', ''Female'', ''AB-'', ''9876543224'',
      ''anjali.mehta@email.com'', ''258 Hill Station'', ''Kolkata'', ''West Bengal'', ''Rohan Mehta'', ''9876543225''],
     [''Rohan'', ''Nair'', ''1980-04-28'', ''Male'', ''O+'', ''9876543226'',
      ''rohan.nair@email.com'', ''369 Garden Road'', ''Kochi'', ''Kerala'', ''Divya Nair'', ''9876543227''],
     [''Divya'', ''Chopra'', ''1993-10-14'', ''Female'', ''A+'', ''9876543228'',
      ''divya.chopra@email.com'', ''741 Market Street'', ''Jaipur'', ''Rajasthan'', ''Karan Chopra'', ''9876543229''],
     [''Sandeep'', ''Jain'', ''1987-02-18'', ''Male'', ''B+'', ''9876543230'',
      ''sandeep.jain@email.com'', ''159 Crescent Road'', ''Bangalore'', ''Karnataka'', ''Pooja Jain'', ''9876543231''],
     [''Pooja'', ''Mishra'', ''1991-11-20'', ''Female'', ''O-'', ''9876543232'',
      ''pooja.mishra@email.com'', ''753 Lotus Lane'', ''Pune'', ''Maharashtra'', ''Sandeep Jain'', ''9876543233''],
     [''Karan'', ''Malhotra'', ''1979-06-05'', ''Male'', ''A-'', ''9876543234'',
      ''karan.malhotra@email.com'', ''852 Sunrise Apartments'', ''Delhi'', ''Delhi'', ''Deepa Malhotra'', ''9876543235''],
     [''Deepa'', ''Verma'', ''1983-09-25'', ''Female'', ''AB+'', ''9876543236'',
      ''deepa.verma@email.com'', ''963 Palm Grove'', ''Mumbai'', ''Maharashtra'', ''Karan Malhotra'', ''9876543237''],
     [''Arjun'', ''Rao'', ''1996-01-10'', ''Male'', ''O+'', ''9876543238'',
      ''arjun.rao@email.com'', ''147 Sterling Towers'', ''Hyderabad'', ''Telangana'', ''Meera Rao'', ''9876543239''],
     [''Meera'', ''Krishnan'', ''1994-04-03'', ''Female'', ''B-'', ''9876543240'',
      ''meera.krishnan@email.com'', ''258 Pearl Residency'', ''Chennai'', ''Tamil Nadu'', ''Arjun Rao'', ''9876543241''],
     [''Suresh'', ''Bose'', ''1972-07-19'', ''Male'', ''A+'', ''9876543242'',
      ''suresh.bose@email.com'', ''369 Victoria Garden'', ''Kolkata'', ''West Bengal'', ''Mala Bose'', ''9876543243''],
     [''Mala'', ''Sen'', ''1976-12-28'', ''Female'', ''O+'', ''9876543244'',
      ''mala.sen@email.com'', ''741 Howrah Bridge'', ''Kolkata'', ''West Bengal'', ''Suresh Bose'', ''9876543245''],
     [''Vivek'', ''Anand'', ''1989-08-08'', ''Male'', ''AB-'', ''9876543246'',
      ''vivek.anand@email.com'', ''852 Silicon Oasis'', ''Bangalore'', ''Karnataka'', ''Sunita Anand'', ''9876543247''],
     [''Sunita'', ''Narayanan'', ''1990-03-12'', ''Female'', ''B+'', ''9876543248'',
      ''sunita.narayanan@email.com'', ''963 Electronic City'', ''Bangalore'', ''Karnataka'', ''Vivek Anand'', ''9876543249'']]"

definition diagnoses :: "string list" where
  "diagnoses =
    [''Type 2 Diabetes'', ''Hypertension'', ''Common Cold'', ''Migraine'', ''Asthma'',
     ''Arthritis'', ''Gastritis'', ''Anxiety'', ''Back Pain'', ''Allergic Rhinitis'',
     ''PCOS'', ''GERD'']"

definition medications :: "string list" where
  "medications =
    [''Metformin'', ''Amlodipine'', ''Paracetamol'', ''Ibuprofen'', ''Salbutamol'',
     ''Aspirin'', ''Omeprazole'', ''Sertraline'', ''Diclofenac'', ''Cetirizine'',
     ''Myo-Inositol'', ''Pantoprazole'']"

definition doctors :: "string list" where
  "doctors =
    [''Dr. Ramesh Kumar'', ''Dr. Priya Sharma'', ''Dr. Amit Patel'', ''Dr. Sneha Reddy'',
     ''Dr. Vikram Singh'', ''Dr. Alok Gupta'', ''Dr. Meena Iyer'']"

definition departments :: "string list" where
  "departments =
    [''Cardiology'', ''General Medicine'', ''Orthopedics'', ''Neurology'', ''Pediatrics'',
     ''Gynecology'', ''Endocrinology'']"

definition times_list :: "string list" where
  "times_list =
    [''09:00 AM'', ''10:30 AM'', ''02:00 PM'', ''03:30 PM'', ''05:00 PM'']"

definition statuses :: "string list" where
  "statuses =
    [''Scheduled'', ''Completed'', ''Cancelled'', ''No Show'']"

text \<open>
  The random module and the clock are parameters: \<open>draw i\<close> is the \<open>i\<close>-th number the
  generator gives, \<open>day_string d\<close> is \<open>(datetime.now() + timedelta(days=d)).strftime('%Y-%m-%d')\<close>
  and \<open>current_date\<close> is SQLite's \<open>CURRENT_DATE\<close>.
\<close>

record seed_env =
  draw :: "nat \<Rightarrow> nat"
  day_string :: "int \<Rightarrow> string"
  current_date :: string

definition randint :: "seed_env \<Rightarrow> nat \<Rightarrow> int \<Rightarrow> int \<Rightarrow> int" where
  "randint env i a b = a + int (draw env i mod nat (b - a + 1))"

definition choice :: "seed_env \<Rightarrow> nat \<Rightarrow> 'a list \<Rightarrow> 'a" where
  "choice env i xs = xs ! (draw env i mod length xs)"

text \<open>\<open>random.random() > 0.3\<close>: the float is \<open>n / 2^53\<close> for a uniform \<open>n\<close>, and it is above
  the double nearest to 0.3 from \<open>n = 2702159776422298\<close> on.\<close>

definition random_above_03 :: "seed_env \<Rightarrow> nat \<Rightarrow> bool" where
  "random_above_03 env i = (2702159776422298 \<le> draw env i mod 2 ^ 53)"

text \<open>The inner loop of the medical records: \<open>n\<close> records of one patient, from draw \<open>i\<close> on;
  the result carries the index of the next unused draw.\<close>

fun patient_records :: "seed_env \<Rightarrow> int \<Rightarrow> nat \<Rightarrow> nat \<Rightarrow> row list \<times> nat" where
  "patient_records env patient_id 0 i = ([], i)"
| "patient_records env patient_id (Suc n) i =
     (let diagnosis = choice env i diagnoses;
          medication = choice env (i + 1) medications;
          doctor = choice env (i + 2) doctors;
          visit_date = day_string env (- randint env (i + 3) 1 365);
          next_appointment = day_string env (randint env (i + 4) 30 120);
          (is_diabetic, j) =
             (if sublist ''Diabetes'' diagnosis then (1, i + 5)
              else (choice env (i + 5) [0, 0, 0, 1], i + 6));
          (has_bp, k) =
             (if sublist ''Hypertension'' diagnosis then (1, j)
              else (choice env j [0, 0, 0, 1], j + 1));
          allergies = (if random_above_03 env k then ''None'' else ''Penicillin'');
          r = [SqlInt patient_id, SqlText diagnosis, SqlText (''Symptoms related to '' @ diagnosis),
               SqlText medication, SqlText doctor, SqlText visit_date, SqlText next_appointment,
               SqlText (''Follow-up recommended for '' @ diagnosis),
               SqlInt is_diabetic, SqlInt has_bp, SqlText allergies];
          (rs, l) = patient_records env patient_id n (k + 1)
      in (r # rs, l))"

fun medical_records_data :: "seed_env \<Rightarrow> int list \<Rightarrow> nat \<Rightarrow> row list \<times> nat" where
  "medical_records_data env [] i = ([], i)"
| "medical_records_data env (patient_id # ids) i =
     (let n = randint env i 2 5;
          (rs, j) = patient_records env patient_id (nat n) (i + 1);
          (rest, k) = medical_records_data env ids j
      in (rs @ rest, k))"

fun patient_appointments :: "seed_env \<Rightarrow> int \<Rightarrow> nat \<Rightarrow> nat \<Rightarrow> row list \<times> nat" where
  "patient_appointments env patient_id 0 i = ([], i)"
| "patient_appointments env patient_id (Suc n) i =
     (let appointment_date = day_string env (randint env i 1 90);
          r = [SqlInt patient_id, SqlText (choice env (i + 1) doctors), SqlText appointment_date,
               SqlText (choice env (i + 2) times_list), SqlText (choice env (i + 3) departments),
               SqlText (choice env (i + 4) statuses), SqlText ''Regular checkup''];
          (rs, j) = patient_appointments env patient_id n (i + 5)
      in (r # rs, j))"

fun appointments_data :: "seed_env \<Rightarrow> int list \<Rightarrow> nat \<Rightarrow> row list \<times> nat" where
  "appointments_data env [] i = ([], i)"
| "appointments_data env (patient_id # ids) i =
     (let n = randint env i 1 4;
          (rs, j) = patient_appointments env patient_id (nat n) (i + 1);
          (rest, k) = appointments_data env ids j
      in (rs @ rest, k))"

definition already_exists_message :: string where
  "already_exists_message = ''Database already exists with data''"

definition created_message :: string where
  "created_message =
     [CHR 0xE2, CHR 0x9C, CHR 0x85]
     @ '' Database created successfully with 20 patients and medical records!''"

text \<open>
  \<open>create_patient_database\<close>: the message returned and the database as the call leaves it.
  The three \<open>CREATE TABLE IF NOT EXISTS\<close> statements take effect at once, also on the
  path that closes the connection without a commit; the inserts are committed at the end.
\<close>

definition create_patient_database :: "seed_env \<Rightarrow> database \<Rightarrow> string \<times> database" where
  "create_patient_database env db =
     (let p = create_table_if_not_exists (patients db);
          m = create_table_if_not_exists (medical_records db);
          a = create_table_if_not_exists (appointments db)
      in if 0 < length (tbl_rows p)
         then (already_exists_message,
               \<lparr>patients = Some p, medical_records = Some m, appointments = Some a\<rparr>)
         else
           (let p' = executemany [SqlText (current_date env)] p (map (map SqlText) patients_data);
                (records, i) = medical_records_data env [1..20] 0;
                m' = executemany [] m records;
                (appts, j) = appointments_data env [1..20] i;
                a' = executemany [] a appts
            in (created_message,
                \<lparr>patients = Some p', medical_records = Some m', appointments = Some a'\<rparr>)))"

text \<open>The rows a table name holds; a table that does not exist holds none.\<close>

definition rows_of :: "table option \<Rightarrow> row list" where
  "rows_of t = (case t of None \<Rightarrow> [] | Some x \<Rightarrow> tbl_rows x)"

text \<open>
  A \<open>DataFrame\<close> is its column labels and its rows; \<open>.empty\<close> holds when either axis has
  length 0. \<open>pd.read_sql_query\<close> on the connection is the store's parser and executor, a
  parameter: it raises or returns a frame.
\<close>

record dataframe =
  df_columns :: "string list"
  df_rows :: "row list"

definition df_empty :: "dataframe \<Rightarrow> bool" where
  "df_empty df = (df_columns df = [] \<or> df_rows df = [])"

type_synonym sql_engine = "database \<Rightarrow> string \<Rightarrow> exn + dataframe"

text \<open>What \<open>query_database\<close> returns: a \<open>DataFrame\<close> or a \<open>str\<close>.\<close>

datatype query_result = Frame dataframe | ErrorText string

definition query_database :: "sql_engine \<Rightarrow> database \<Rightarrow> string \<Rightarrow> exn + query_result" where
  "query_database engine db sql_query =
     (case engine db sql_query of
        Inr df \<Rightarrow> Inr (Frame df)
      | Inl (OperationalError m) \<Rightarrow> Inr (ErrorText (''Database query error: '' @ m))
      | Inl e \<Rightarrow> Inr (ErrorText (''An error occurred: '' @ exn_str e)))"

text \<open>\<open>PRAGMA table_info\<close>: the name and the declared type of each column, none for a
  table that does not exist.\<close>

definition patients_columns :: "(string \<times> string) list" where
  "patients_columns =
     [(''patient_id'', ''INTEGER''), (''first_name'', ''TEXT''), (''last_name'', ''TEXT''),
      (''date_of_birth'', ''DATE''), (''gender'', ''TEXT''), (''blood_group'', ''TEXT''),
      (''contact_no'', ''TEXT''), (''email'', ''TEXT''), (''address'', ''TEXT''), (''city'', ''TEXT''),
      (''state'', ''TEXT''), (''emergency_contact_name'', ''TEXT''),
      (''emergency_contact_no'', ''TEXT''), (''created_date'', ''DATE'')]"

definition medical_records_columns :: "(string \<times> string) list" where
  "medical_records_columns =
     [(''record_id'', ''INTEGER''), (''patient_id'', ''INTEGER''), (''diagnosis'', ''TEXT''),
      (''symptoms'', ''TEXT''), (''prescribed_medication'', ''TEXT''), (''doctor_name'', ''TEXT''),
      (''visit_date'', ''DATE''), (''next_appointment'', ''DATE''), (''notes'', ''TEXT''),
      (''is_diabetic'', ''BOOLEAN''), (''has_bp'', ''BOOLEAN''), (''allergies'', ''TEXT'')]"

definition appointments_columns :: "(string \<times> string) list" where
  "appointments_columns =
     [(''appointment_id'', ''INTEGER''), (''patient_id'', ''INTEGER''), (''doctor_name'', ''TEXT''),
      (''appointment_date'', ''DATE''), (''appointment_time'', ''TEXT''), (''department'', ''TEXT''),
      (''status'', ''TEXT''), (''reason'', ''TEXT'')]"

definition table_info :: "table option \<Rightarrow> (string \<times> string) list \<Rightarrow> (string \<times> string) list" where
  "table_info t cols = (case t of None \<Rightarrow> [] | Some x \<Rightarrow> cols)"

definition schema_columns :: "(string \<times> string) list \<Rightarrow> string" where
  "schema_columns cols = concat (map (\<lambda>(n, ty). ''  - '' @ n @ '' ('' @ ty @ '')'' @ [CHR 0x0A]) cols)"

definition get_database_schema :: "database \<Rightarrow> string" where
  "get_database_schema db =
     ''TABLE: patients'' @ [CHR 0x0A] @ ''COLUMNS:'' @ [CHR 0x0A]
     @ schema_columns (table_info (patients db) patients_columns) @ [CHR 0x0A]
     @ ''TABLE: medical_records'' @ [CHR 0x0A] @ ''COLUMNS:'' @ [CHR 0x0A]
     @ schema_columns (table_info (medical_records db) medical_records_columns) @ [CHR 0x0A]
     @ ''TABLE: appointments'' @ [CHR 0x0A] @ ''COLUMNS:'' @ [CHR 0x0A]
     @ schema_columns (table_info (appointments db) appointments_columns)"


section \<open>app.py\<close>

text \<open>
  The chat model is reached through two chains, \<open>sql_prompt | groq_llm\<close> and
  \<open>response_prompt | groq_llm\<close>; an invocation is the chain's template with the values of
  its variables, and it raises or returns the text of the reply.
\<close>

datatype prompt =
    SqlPrompt (prompt_schema: string) (prompt_question: string)
  | ResponsePrompt (prompt_question: string) (prompt_results: string)

text \<open>What a handler does beyond returning: its calls to the model, to the store and to
  the document system, in order.\<close>

datatype call =
    ModelCall prompt
  | StoreQuery string
  | RagQuery string
  | ChainInvoke string

fun is_response_call :: "call \<Rightarrow> bool" where
  "is_response_call (ModelCall (ResponsePrompt q r)) = True"
| "is_response_call c = False"

record app_env =
  groq_llm :: "prompt \<Rightarrow> exn + string"
  engine :: sql_engine
  to_string :: "dataframe \<Rightarrow> string"

text \<open>The entries of \<open>st.session_state\<close> the handlers read or write.\<close>

record 'vs session_state =
  db_schema_cache :: "string option"
  pdf_rag_initialized :: bool
  pdf_rag_system :: "'vs pdf_rag_system option"

text \<open>The literal of the clean-up step of \<open>generate_sql_query\<close>: six backquotes.\<close>

definition six_backquotes :: string where
  "six_backquotes = replicate 6 (CHR 0x60)"

definition clean_query :: "string \<Rightarrow> string" where
  "clean_query content = py_strip (py_replace six_backquotes [] (py_strip content))"

definition generate_sql_query :: "app_env \<Rightarrow> string \<Rightarrow> string \<Rightarrow> (exn + string) \<times> call list" where
  "generate_sql_query env question schema =
     (case groq_llm env (SqlPrompt schema question) of
        Inl e \<Rightarrow> Inl e
      | Inr content \<Rightarrow> Inr (clean_query content),
      [ModelCall (SqlPrompt schema question)])"

definition generate_natural_response :: "app_env \<Rightarrow> string \<Rightarrow> dataframe \<Rightarrow> (exn + string) \<times> call list" where
  "generate_natural_response env question results =
     (let results_str = (if df_empty results then ''No results found'' else to_string env results)
      in (groq_llm env (ResponsePrompt question results_str),
          [ModelCall (ResponsePrompt question results_str)]))"

definition no_records_message :: string where
  "no_records_message = ''No matching records found in the database.''"

text \<open>The schema text of the session: the cached one, computed from the store when
  nothing is cached yet.\<close>

definition session_schema :: "database \<Rightarrow> 'vs session_state \<Rightarrow> string" where
  "session_schema db st =
     (case db_schema_cache st of None \<Rightarrow> get_database_schema db | Some s \<Rightarrow> s)"

text \<open>The body of the \<open>try\<close> of \<open>handle_sql_query\<close>: result, session state and calls.\<close>

definition handle_sql_query_try :: "app_env \<Rightarrow> database \<Rightarrow> 'vs session_state \<Rightarrow> string
    \<Rightarrow> (exn + string) \<times> 'vs session_state \<times> call list" where
  "handle_sql_query_try env db st question =
     (let schema = session_schema db st;
          st1 = st\<lparr>db_schema_cache := Some schema\<rparr>
      in case generate_sql_query env question schema of
           (Inl e, c1) \<Rightarrow> (Inl e, st1, c1)
         | (Inr sql_query, c1) \<Rightarrow>
             (case query_database (engine env) db sql_query of
                Inl e \<Rightarrow> (Inl e, st1, c1 @ [StoreQuery sql_query])
              | Inr (Frame results) \<Rightarrow>
                  if \<not> df_empty results then
                    (case generate_natural_response env question results of
                       (nl_response, c2) \<Rightarrow> (nl_response, st1, c1 @ [StoreQuery sql_query] @ c2))
                  else (Inr no_records_message, st1, c1 @ [StoreQuery sql_query])
              | Inr (ErrorText results) \<Rightarrow>
                  (Inr (''Query execution error: '' @ results), st1, c1 @ [StoreQuery sql_query])))"

definition handle_sql_query :: "app_env \<Rightarrow> database \<Rightarrow> 'vs session_state \<Rightarrow> string
    \<Rightarrow> (exn + string) \<times> 'vs session_state \<times> call list" where
  "handle_sql_query env db st question =
     (case handle_sql_query_try env db st question of
        (r, st1, calls) \<Rightarrow>
          (try_except r (\<lambda>e. ''Error processing SQL query: '' @ exn_str e), st1, calls))"

definition upload_first_message :: string where
  "upload_first_message =
     [CHR 0xE2, CHR 0x9A, CHR 0xA0, CHR 0xEF, CHR 0xB8, CHR 0x8F]
     @ '' Please upload and process a PDF document first.''"

definition none_has_no_query :: string where
  "none_has_no_query =
     [CHR 0x27] @ ''NoneType'' @ [CHR 0x27] @ '' object has no attribute ''
     @ [CHR 0x27] @ ''query'' @ [CHR 0x27]"

text \<open>The body of the \<open>try\<close> of \<open>handle_pdf_query\<close>. The expander that shows the source
  documents only displays; it is not part of the result.\<close>

definition handle_pdf_query_try :: "'vs pdf_env \<Rightarrow> 'vs session_state \<Rightarrow> string
    \<Rightarrow> (exn + string) \<times> call list" where
  "handle_pdf_query_try env st question =
     (if \<not> pdf_rag_initialized st then (Inr upload_first_message, [])
      else
        (case pdf_rag_system st of
           None \<Rightarrow> (Inl (AttributeError none_has_no_query), [])
         | Some sys \<Rightarrow>
             (case query env sys question of
                (Inl e, qs) \<Rightarrow> (Inl e, RagQuery question # map ChainInvoke qs)
              | (Inr response, qs) \<Rightarrow>
                  (Inr (case resp_answer response of None \<Rightarrow> ''No answer found.'' | Some a \<Rightarrow> a),
                   RagQuery question # map ChainInvoke qs))))"

definition handle_pdf_query :: "'vs pdf_env \<Rightarrow> 'vs session_state \<Rightarrow> string
    \<Rightarrow> (exn + string) \<times> call list" where
  "handle_pdf_query env st question =
     (case handle_pdf_query_try env st question of
        (r, calls) \<Rightarrow> (try_except r (\<lambda>e. ''Error processing PDF query: '' @ exn_str e), calls))"

text \<open>A code-fence marker is a run of three backquotes.\<close>

definition code_fence :: string where
  "code_fence = replicate 3 (CHR 0x60)"

definition has_code_fence :: "string \<Rightarrow> bool" where
  "has_code_fence s = sublist code_fence s"


section \<open>Concrete surroundings used to run the definitions\<close>

definition page_a :: document where
  "page_a = \<lparr>page_content = ''alpha'', metadata = [(''source'', ''a.pdf'')]\<rparr>"

definition page_b :: document where
  "page_b = \<lparr>page_content = ''beta'', metadata = [(''source'', ''b.pdf'')]\<rparr>"

text \<open>Two one-page files; pages this short are passages as they are; the index is the
  list of the passages stored in it.\<close>

definition demo_loader :: "string \<Rightarrow> exn + document list" where
  "demo_loader path =
     (if path = ''a.pdf'' then Inr [page_a] else if path = ''b.pdf'' then Inr [page_b]
      else Inl (ValueError (''File path '' @ path @ '' is not a valid file or url'')))"

definition demo_splitter :: "int \<Rightarrow> int \<Rightarrow> document list \<Rightarrow> exn + document list" where
  "demo_splitter chunk_size chunk_overlap documents = Inr documents"

definition demo_index :: "document list \<Rightarrow> exn + document list" where
  "demo_index documents = Inr documents"

definition demo_chain :: "document list \<Rightarrow> int \<Rightarrow> string \<Rightarrow> exn + response" where
  "demo_chain vs k question =
     Inr \<lparr>resp_answer = Some ''ok'', resp_context = Some (py_slice_to vs k)\<rparr>"

definition demo_pdf_env :: "document list pdf_env" where
  "demo_pdf_env =
     \<lparr>pdf_loader = demo_loader, text_splitter = demo_splitter,
      faiss_from_documents = demo_index, chain_invoke = demo_chain\<rparr>"

text \<open>A store that answers two queries and rejects the rest, and a model that replies to
  the query prompt with the question itself.\<close>

definition demo_engine :: sql_engine where
  "demo_engine db sql_query =
     (if sql_query = ''SELECT patient_id FROM patients WHERE patient_id < 0''
        then Inr \<lparr>df_columns = [''patient_id''], df_rows = []\<rparr>
      else if sql_query = ''SELECT COUNT(*) FROM patients''
        then Inr \<lparr>df_columns = [''COUNT(*)''],
                  df_rows = [[SqlInt (int (length (rows_of (patients db))))]]\<rparr>
      else Inl (OperationalError ''no such table: visits''))"

definition demo_llm :: "prompt \<Rightarrow> exn + string" where
  "demo_llm p = (case p of SqlPrompt s q \<Rightarrow> Inr q | ResponsePrompt q r \<Rightarrow> Inr (''Answer: '' @ r))"

text \<open>A reply wrapped in a markdown code fence, and a model that gives it.\<close>

definition fenced_reply :: string where
  "fenced_reply =
     code_fence @ ''sql'' @ [CHR 0x0A] @ ''SELECT * FROM patients'' @ [CHR 0x0A] @ code_fence"

definition fenced_llm :: "prompt \<Rightarrow> exn + string" where
  "fenced_llm p = Inr fenced_reply"

definition demo_to_string :: "dataframe \<Rightarrow> string" where
  "demo_to_string df = py_join '' '' (df_columns df)"

definition demo_app_env :: app_env where
  "demo_app_env = \<lparr>groq_llm = demo_llm, engine = demo_engine, to_string = demo_to_string\<rparr>"

definition fenced_app_env :: app_env where
  "fenced_app_env = \<lparr>groq_llm = fenced_llm, engine = demo_engine, to_string = demo_to_string\<rparr>"

definition empty_database :: database where
  "empty_database = \<lparr>patients = None, medical_records = None, appointments = None\<rparr>"

definition new_session :: "document list session_state" where
  "new_session = \<lparr>db_schema_cache = None, pdf_rag_initialized = False, pdf_rag_system = None\<rparr>"

text \<open>A search tool that is down, and one that answers.\<close>

definition failing_tools :: search_tools where
  "failing_tools t inp = Inl (OtherError ''connection refused'')"

definition echo_tools :: search_tools where
  "echo_tools t inp = Inr (Blob (request_query inp))"

definition ddg_system :: web_search_system where
  "ddg_system = create_web_search_system None ''duckduckgo''"

definition demo_seed_env :: seed_env where
  "demo_seed_env = \<lparr>draw = (\<lambda>i. i), day_string = (\<lambda>d. ''2025-01-01''), current_date = ''2025-01-01''\<rparr>"


section \<open>Properties\<close>

subsection \<open>The document handler before any document is processed\<close>

text \<open>
  C3. Whatever the question, when \<open>handle_pdf_query\<close> runs while the session's
  \<open>pdf_rag_initialized\<close> flag is false, it returns the message that asks for a document
  to be uploaded and processed first, and it makes no call at all: neither
  \<open>pdf_rag_system.query\<close> nor the retrieval chain is reached.
\<close>

theorem handle_pdf_query_not_initialized:
  assumes "\<not> pdf_rag_initialized st"
  shows "handle_pdf_query env st question = (Inr upload_first_message, [])"
  using assms by (simp add: handle_pdf_query_def handle_pdf_query_try_def try_except_def)

theorem handle_pdf_query_not_initialized_witness:
  "\<not> pdf_rag_initialized new_session
   \<and> handle_pdf_query demo_pdf_env new_session ''What does the report say?''
       = (Inr upload_first_message, [])"
proof -
  have h: "\<not> pdf_rag_initialized new_session" by (simp add: new_session_def)
  show ?thesis using h handle_pdf_query_not_initialized [OF h] by simp
qed

subsection \<open>The retriever before any document is indexed\<close>

text \<open>
  C8. Whatever the question, \<open>PDFRAGSystem.query\<close> on a system whose \<open>retrieval_chain\<close> is
  \<open>None\<close> (no \<open>process_pdf\<close> has completed) raises instead of returning a result, and the
  chain is not invoked. The error is a \<open>ValueError\<close> whose message says that the retrieval
  chain is not initialized: the source's form of a not-initialized error.
\<close>

theorem query_before_indexing:
  assumes "retrieval_chain sys = None"
  shows "query env sys question =
           (Inl (ValueError ''Retrieval chain not initialized. Call process_pdf first.''), [])"
  using assms by (simp add: query_def)

theorem query_before_indexing_witness:
  "retrieval_chain (create_pdf_rag_system :: document list pdf_rag_system) = None
   \<and> query demo_pdf_env create_pdf_rag_system ''What does the report say?'' =
       (Inl (ValueError ''Retrieval chain not initialized. Call process_pdf first.''), [])"
proof -
  have h: "retrieval_chain (create_pdf_rag_system :: document list pdf_rag_system) = None"
    by (simp add: create_pdf_rag_system_def)
  show ?thesis using h query_before_indexing [OF h] by simp
qed

subsection \<open>The trusted-domain search on the fallback provider\<close>

text \<open>Where a separator-joined list holds each of its elements.\<close>

lemma sublist_in_suffix:
  assumes "sublist x zs"
  shows "sublist x (ys @ zs)"
proof -
  from assms obtain ps ss where "zs = ps @ x @ ss"
    by (auto simp: sublist_def)
  then have "ys @ zs = (ys @ ps) @ x @ ss" by simp
  then show ?thesis unfolding sublist_def by blast
qed

lemma sublist_py_join:
  "x \<in> set xs \<Longrightarrow> sublist x (py_join sep xs)"
proof (induction sep xs rule: py_join.induct)
  case (1 sep)
  then show ?case by simp
next
  case (2 sep y)
  then show ?case by simp
next
  case (3 sep y z zs)
  show ?case
  proof (cases "x = y")
    case True
    then show ?thesis by (simp add: prefix_imp_sublist)
  next
    case False
    with 3 have "sublist x (py_join sep (z # zs))" by simp
    then have "sublist x (sep @ py_join sep (z # zs))"
      by (rule sublist_in_suffix)
    then have "sublist x (y @ sep @ py_join sep (z # zs))"
      by (rule sublist_in_suffix)
    then show ?thesis by simp
  qed
qed

text \<open>
  C5. Whatever the query, when \<open>medical_search\<close> runs with the default domain list on a
  system that does not pass the domains natively (the provider is DuckDuckGo, or Tavily
  is named without a key), exactly one request is sent, to the DuckDuckGo tool, and its
  query text is the query followed by a space and by \<open>site:<domain>\<close> for each of the
  seven trusted domains, in order, joined by \<open>" OR "\<close>; so every trusted domain occurs in
  the request text as a \<open>site:\<close> term.
\<close>

theorem medical_search_site_qualifiers:
  assumes "\<not> (search_provider sys = ''tavily'' \<and> truthy (tavily_api_key sys))"
  shows "\<exists>text. snd (medical_search tools sys q None) = [(DuckDuckGoSearchRun, search_request sys text)]
           \<and> request_query (search_request sys text) = text
           \<and> text = q @ '' site:pubmed.ncbi.nlm.nih.gov OR site:mayoclinic.org OR site:who.int OR site:cdc.gov OR site:nih.gov OR site:webmd.com OR site:medicalnewstoday.com''
           \<and> (\<forall>d \<in> set default_domains. sublist (''site:'' @ d) text)"
proof -
  let ?sites = "map ((@) ''site:'') default_domains"
  let ?text = "q @ '' '' @ py_join '' OR '' ?sites"
  have tool: "search_tool sys = DuckDuckGoSearchRun"
    using assms by (auto simp: search_tool_def)
  have "medical_search tools sys q None = search tools sys ?text 5"
    using assms by (auto simp: medical_search_def Let_def)
  then have calls: "snd (medical_search tools sys q None) = [(DuckDuckGoSearchRun, search_request sys ?text)]"
    by (simp add: search_def tool)
  have rq: "request_query (search_request sys ?text) = ?text"
    by (simp add: search_request_def)
  have lit: "?text = q @ '' site:pubmed.ncbi.nlm.nih.gov OR site:mayoclinic.org OR site:who.int OR site:cdc.gov OR site:nih.gov OR site:webmd.com OR site:medicalnewstoday.com''"
    by (simp add: default_domains_def)
  have sub: "\<forall>d \<in> set default_domains. sublist (''site:'' @ d) ?text"
  proof
    fix d assume "d \<in> set default_domains"
    then have "(@) ''site:'' d \<in> (@) ''site:'' ` set default_domains" by (rule imageI)
    then have "''site:'' @ d \<in> set ?sites" by (simp only: set_map)
    then have "sublist (''site:'' @ d) (py_join '' OR '' ?sites)"
      by (rule sublist_py_join)
    then have "sublist (''site:'' @ d) ('' '' @ py_join '' OR '' ?sites)"
      by (rule sublist_in_suffix)
    then show "sublist (''site:'' @ d) ?text"
      by (rule sublist_in_suffix)
  qed
  from calls rq lit sub show ?thesis by metis
qed

theorem medical_search_site_qualifiers_witness:
  "\<not> (search_provider ddg_system = ''tavily'' \<and> truthy (tavily_api_key ddg_system))
   \<and> snd (medical_search echo_tools ddg_system ''flu'' None) =
       [(DuckDuckGoSearchRun, QueryText ''flu site:pubmed.ncbi.nlm.nih.gov OR site:mayoclinic.org OR site:who.int OR site:cdc.gov OR site:nih.gov OR site:webmd.com OR site:medicalnewstoday.com'')]"
proof -
  have h: "\<not> (search_provider ddg_system = ''tavily'' \<and> truthy (tavily_api_key ddg_system))"
    by (simp add: ddg_system_def create_web_search_system_def)
  have p: "search_provider ddg_system = ''duckduckgo''"
    by (simp add: ddg_system_def create_web_search_system_def)
  show ?thesis
    using h medical_search_site_qualifiers [OF h, of echo_tools "''flu''"]
    by (auto simp: search_request_def p)
qed

subsection \<open>Provider failures in the web search\<close>

text \<open>
  C6. Whatever the query and the bound, \<open>WebSearchSystem.search\<close> returns a value and
  never raises; and when the search tool raises an exception \<open>e\<close> on the request that
  \<open>search\<close> sends, the value returned is the string that holds the single diagnostic
  entry \<open>"Search error: " + str(e)\<close>.
\<close>

theorem search_never_raises:
  "(\<exists>s. fst (search tools sys q max_results) = Inr s)
   \<and> (tools (search_tool sys) (search_request sys q) = Inl e
      \<longrightarrow> search tools sys q max_results =
            (Inr (Blob (''Search error: '' @ exn_str e)),
             [(search_tool sys, search_request sys q)]))"
  by (auto simp: search_def try_except_def search_try_def search_request_def split: sum.splits)

theorem search_never_raises_witness:
  "failing_tools (search_tool ddg_system) (search_request ddg_system ''flu symptoms'')
     = Inl (OtherError ''connection refused'')
   \<and> fst (search failing_tools ddg_system ''flu symptoms'' 5)
       = Inr (Blob ''Search error: connection refused'')"
proof -
  have h: "failing_tools (search_tool ddg_system) (search_request ddg_system ''flu symptoms'')
     = Inl (OtherError ''connection refused'')" by (simp add: failing_tools_def)
  show ?thesis
    using h search_never_raises [of failing_tools ddg_system "''flu symptoms''" 5 "OtherError ''connection refused''"]
    by simp
qed

subsection \<open>The structured handler on an empty result set\<close>

text \<open>
  C1. Whenever the query generated for a question executes successfully and yields no
  rows, \<open>handle_sql_query\<close> returns the fixed answer "No matching records found in the
  database.", and its calls are the query-generation call to the model and the execution
  of the query, nothing else: \<open>generate_natural_response\<close>, whose model call uses the
  response prompt, is not invoked on that path.
\<close>

theorem handle_sql_query_empty_result:
  assumes "fst (generate_sql_query env question (session_schema db st)) = Inr sql_query"
      and "engine env db sql_query = Inr results"
      and "df_rows results = []"
  shows "fst (handle_sql_query env db st question) = Inr no_records_message
         \<and> snd (snd (handle_sql_query env db st question)) =
             [ModelCall (SqlPrompt (session_schema db st) question), StoreQuery sql_query]
         \<and> list_all (\<lambda>c. \<not> is_response_call c) (snd (snd (handle_sql_query env db st question)))"
proof -
  obtain c1 where g: "generate_sql_query env question (session_schema db st) = (Inr sql_query, c1)"
    using assms(1) by (cases "generate_sql_query env question (session_schema db st)") simp
  have c1: "c1 = [ModelCall (SqlPrompt (session_schema db st) question)]"
    using g by (simp add: generate_sql_query_def)
  have qd: "query_database (engine env) db sql_query = Inr (Frame results)"
    using assms(2) by (simp add: query_database_def)
  have e: "df_empty results" using assms(3) by (simp add: df_empty_def)
  have "handle_sql_query_try env db st question =
          (Inr no_records_message, st\<lparr>db_schema_cache := Some (session_schema db st)\<rparr>,
           c1 @ [StoreQuery sql_query])"
    by (simp add: handle_sql_query_try_def Let_def g qd e)
  then show ?thesis
    by (simp add: handle_sql_query_def try_except_def c1)
qed

theorem handle_sql_query_empty_result_witness:
  "fst (generate_sql_query demo_app_env ''SELECT patient_id FROM patients WHERE patient_id < 0''
          (session_schema empty_database new_session))
     = Inr ''SELECT patient_id FROM patients WHERE patient_id < 0''
   \<and> engine demo_app_env empty_database ''SELECT patient_id FROM patients WHERE patient_id < 0''
       = Inr \<lparr>df_columns = [''patient_id''], df_rows = []\<rparr>
   \<and> fst (handle_sql_query demo_app_env empty_database new_session
            ''SELECT patient_id FROM patients WHERE patient_id < 0'') = Inr no_records_message"
proof -
  have cq: "clean_query ''SELECT patient_id FROM patients WHERE patient_id < 0''
              = ''SELECT patient_id FROM patients WHERE patient_id < 0''"
    by code_simp
  have h1: "fst (generate_sql_query demo_app_env ''SELECT patient_id FROM patients WHERE patient_id < 0''
          (session_schema empty_database new_session))
     = Inr ''SELECT patient_id FROM patients WHERE patient_id < 0''"
    by (simp add: generate_sql_query_def demo_app_env_def demo_llm_def cq)
  have h2: "engine demo_app_env empty_database ''SELECT patient_id FROM patients WHERE patient_id < 0''
       = Inr \<lparr>df_columns = [''patient_id''], df_rows = []\<rparr>"
    by (simp add: demo_app_env_def demo_engine_def)
  have h3: "df_rows \<lparr>df_columns = [''patient_id''], df_rows = []\<rparr> = []" by simp
  show ?thesis
    using h1 h2 handle_sql_query_empty_result [OF h1 h2 h3] by simp
qed

subsection \<open>The structured handler on a rejected query\<close>

text \<open>
  C2. Whenever the store raises on a query string, \<open>query_database\<close> returns an error
  text, which is a value no successful execution returns (a successful one returns a
  frame, empty or not), and it does not raise; and \<open>handle_sql_query\<close>, when that query is
  the one generated for the question, returns the answer "Query execution error: "
  followed by that text instead of raising.
\<close>

theorem rejected_query_reported:
  assumes "engine env db sql_query = Inl e"
  shows "\<exists>msg. query_database (engine env) db sql_query = Inr (ErrorText msg)
           \<and> (\<forall>df. query_database (engine env) db sql_query \<noteq> Inr (Frame df))
           \<and> (fst (generate_sql_query env question (session_schema db st)) = Inr sql_query
                \<longrightarrow> fst (handle_sql_query env db st question)
                      = Inr (''Query execution error: '' @ msg))"
proof -
  obtain msg where qd: "query_database (engine env) db sql_query = Inr (ErrorText msg)"
    using assms by (cases e) (simp_all add: query_database_def)
  have "fst (handle_sql_query env db st question) = Inr (''Query execution error: '' @ msg)"
    if g: "fst (generate_sql_query env question (session_schema db st)) = Inr sql_query"
  proof -
    obtain c1 where g': "generate_sql_query env question (session_schema db st) = (Inr sql_query, c1)"
      using g by (cases "generate_sql_query env question (session_schema db st)") simp
    have "handle_sql_query_try env db st question =
            (Inr (''Query execution error: '' @ msg),
             st\<lparr>db_schema_cache := Some (session_schema db st)\<rparr>, c1 @ [StoreQuery sql_query])"
      by (simp add: handle_sql_query_try_def Let_def g' qd)
    then show ?thesis
      by (simp add: handle_sql_query_def try_except_def)
  qed
  with qd show ?thesis by auto
qed

theorem rejected_query_reported_witness:
  "engine demo_app_env empty_database ''SELECT * FROM visits'' = Inl (OperationalError ''no such table: visits'')
   \<and> query_database (engine demo_app_env) empty_database ''SELECT * FROM visits''
       = Inr (ErrorText ''Database query error: no such table: visits'')
   \<and> fst (handle_sql_query demo_app_env empty_database new_session ''SELECT * FROM visits'')
       = Inr ''Query execution error: Database query error: no such table: visits''"
proof -
  have cq: "clean_query ''SELECT * FROM visits'' = ''SELECT * FROM visits''"
    by code_simp
  have h: "engine demo_app_env empty_database ''SELECT * FROM visits''
             = Inl (OperationalError ''no such table: visits'')"
    by (simp add: demo_app_env_def demo_engine_def)
  have g: "fst (generate_sql_query demo_app_env ''SELECT * FROM visits''
                 (session_schema empty_database new_session)) = Inr ''SELECT * FROM visits''"
    by (simp add: generate_sql_query_def demo_app_env_def demo_llm_def cq)
  have qd: "query_database (engine demo_app_env) empty_database ''SELECT * FROM visits''
       = Inr (ErrorText ''Database query error: no such table: visits'')"
    using h by (simp add: query_database_def)
  show ?thesis
    using h g qd rejected_query_reported [OF h, of "''SELECT * FROM visits''" new_session]
    by auto
qed

subsection \<open>The clean-up of the generated query\<close>

text \<open>
  C4. The clean-up step of \<open>generate_sql_query\<close> removes runs of six backquotes only, so
  a reply wrapped in an ordinary markdown code fence comes back as it is: for the model
  reply \<open>fenced_reply\<close> (an opening fence with the language tag \<open>sql\<close>, the query, a
  closing fence), the query returned is the reply unchanged and still holds a code-fence
  marker.
\<close>

theorem generate_sql_query_keeps_fence:
  "fst (generate_sql_query fenced_app_env ''List all patients'' (get_database_schema empty_database))
     = Inr fenced_reply
   \<and> has_code_fence fenced_reply"
proof -
  have cq: "clean_query fenced_reply = fenced_reply" by code_simp
  have hf: "has_code_fence fenced_reply" by code_simp
  show ?thesis
    by (simp add: generate_sql_query_def fenced_app_env_def fenced_llm_def cq hf)
qed

subsection \<open>The index after a second document\<close>

text \<open>
  C9, as stated, fails: after \<open>a.pdf\<close> and then \<open>b.pdf\<close> are processed by the same system,
  the index holds the passage of \<open>b.pdf\<close> alone, which is not the index built over the
  concatenation of the passages of the two documents.
\<close>

theorem second_document_index_counterexample:
  "process_pdf_default demo_pdf_env create_pdf_rag_system ''a.pdf''
     = (Inr (), \<lparr>vectorstore = Some [page_a],
                 retrieval_chain = Some \<lparr>chain_store = [page_a], chain_k = 5\<rparr>\<rparr>)
   \<and> process_pdf_default demo_pdf_env
        (snd (process_pdf_default demo_pdf_env create_pdf_rag_system ''a.pdf'')) ''b.pdf''
     = (Inr (), \<lparr>vectorstore = Some [page_b],
                 retrieval_chain = Some \<lparr>chain_store = [page_b], chain_k = 5\<rparr>\<rparr>)
   \<and> faiss_from_documents demo_pdf_env ([page_a] @ [page_b]) = Inr [page_a, page_b]
   \<and> vectorstore (snd (process_pdf_default demo_pdf_env
        (snd (process_pdf_default demo_pdf_env create_pdf_rag_system ''a.pdf'')) ''b.pdf''))
       \<noteq> Some [page_a, page_b]"
  by (simp add: process_pdf_default_def process_pdf_def load_pdf_def split_documents_def
      create_vectorstore_def setup_retrieval_chain_def demo_pdf_env_def demo_loader_def
      demo_splitter_def demo_index_def create_pdf_rag_system_def page_a_def page_b_def)

text \<open>
  C9, amended. For every pair of documents processed in sequence through \<open>process_pdf\<close>
  on the same system, with both calls succeeding, processing the second document replaces
  the index with a new one built over the passages of the second document alone (the
  splits of that document's pages, in order), and the retrieval chain is set up over that
  new index: the index is rebuilt on ingest, not incrementally updated, and nothing of
  the first document is carried over.
\<close>

theorem process_pdf_rebuilds_index:
  assumes "process_pdf env sys0 path1 size1 overlap1 k1 = (Inr (), sys1)"
      and "process_pdf env sys1 path2 size2 overlap2 k2 = (Inr (), sys2)"
  shows "\<exists>documents splits vs.
           load_pdf env path2 = Inr documents
           \<and> split_documents env documents size2 overlap2 = Inr splits
           \<and> faiss_from_documents env splits = Inr vs
           \<and> vectorstore sys2 = Some vs
           \<and> retrieval_chain sys2 = Some \<lparr>chain_store = vs, chain_k = k2\<rparr>"
  using assms(2)
  by (auto simp: process_pdf_def create_vectorstore_def setup_retrieval_chain_def
      split: sum.splits prod.splits option.splits)

theorem process_pdf_rebuilds_index_witness:
  "process_pdf demo_pdf_env create_pdf_rag_system ''a.pdf'' 1000 200 5
     = (Inr (), \<lparr>vectorstore = Some [page_a],
                 retrieval_chain = Some \<lparr>chain_store = [page_a], chain_k = 5\<rparr>\<rparr>)
   \<and> process_pdf demo_pdf_env \<lparr>vectorstore = Some [page_a],
                 retrieval_chain = Some \<lparr>chain_store = [page_a], chain_k = 5\<rparr>\<rparr> ''b.pdf'' 1000 200 5
     = (Inr (), \<lparr>vectorstore = Some [page_b],
                 retrieval_chain = Some \<lparr>chain_store = [page_b], chain_k = 5\<rparr>\<rparr>)
   \<and> (\<exists>documents splits vs.
           load_pdf demo_pdf_env ''b.pdf'' = Inr documents
           \<and> split_documents demo_pdf_env documents 1000 200 = Inr splits
           \<and> faiss_from_documents demo_pdf_env splits = Inr vs
           \<and> Some [page_b] = Some vs)"
proof -
  have h1: "process_pdf demo_pdf_env create_pdf_rag_system ''a.pdf'' 1000 200 5
     = (Inr (), \<lparr>vectorstore = Some [page_a],
                 retrieval_chain = Some \<lparr>chain_store = [page_a], chain_k = 5\<rparr>\<rparr>)"
    by (simp add: process_pdf_def load_pdf_def split_documents_def
      create_vectorstore_def setup_retrieval_chain_def demo_pdf_env_def demo_loader_def
      demo_splitter_def demo_index_def create_pdf_rag_system_def)
  have h2: "process_pdf demo_pdf_env \<lparr>vectorstore = Some [page_a],
                 retrieval_chain = Some \<lparr>chain_store = [page_a], chain_k = 5\<rparr>\<rparr> ''b.pdf'' 1000 200 5
     = (Inr (), \<lparr>vectorstore = Some [page_b],
                 retrieval_chain = Some \<lparr>chain_store = [page_b], chain_k = 5\<rparr>\<rparr>)"
    by (simp add: process_pdf_def load_pdf_def split_documents_def
      create_vectorstore_def setup_retrieval_chain_def demo_pdf_env_def demo_loader_def
      demo_splitter_def demo_index_def)
  show ?thesis
    using h1 h2 process_pdf_rebuilds_index [OF h1 h2] by simp
qed

subsection \<open>Creating the patient database when it holds data\<close>

text \<open>
  C10. In every database state in which the \<open>patients\<close> table holds at least one row, a
  call of \<open>create_patient_database\<close> returns the message that the database already exists
  with data, leaves the \<open>patients\<close> table as it is and inserts no row into
  \<open>medical_records\<close> or \<open>appointments\<close>; when these two tables exist, as they do after
  any earlier call, the whole database is unchanged.
\<close>

text \<open>
  After any call, from any state and with any random source and clock, the three tables
  exist and \<open>patients\<close> holds at least one row, so every later call finds data and
  changes nothing.
\<close>

lemma executemany_length:
  "length (tbl_rows (executemany dflt t rows)) = length (tbl_rows t) + length rows"
  unfolding executemany_def
  by (induction rows arbitrary: t) (simp_all add: insert_row_def)

lemma create_patient_database_tables:
  "\<exists>p m a. snd (create_patient_database env db) =
             \<lparr>patients = Some p, medical_records = Some m, appointments = Some a\<rparr>
           \<and> tbl_rows p \<noteq> []"
proof (cases "tbl_rows (create_table_if_not_exists (patients db)) = []")
  case False
  then show ?thesis by (simp add: create_patient_database_def Let_def)
next
  case True
  let ?p = "executemany [SqlText (current_date env)] (create_table_if_not_exists (patients db))
              (map (map SqlText) patients_data)"
  have "length (tbl_rows ?p) = 20"
    by (simp add: executemany_length True patients_data_def)
  then have "tbl_rows ?p \<noteq> []" by auto
  then show ?thesis
    using True by (simp add: create_patient_database_def Let_def split: prod.splits)
qed

lemma create_patient_database_populated:
  "tbl_rows p \<noteq> [] \<Longrightarrow>
   create_patient_database env \<lparr>patients = Some p, medical_records = Some m, appointments = Some a\<rparr>
     = (already_exists_message,
        \<lparr>patients = Some p, medical_records = Some m, appointments = Some a\<rparr>)"
  by (simp add: create_patient_database_def Let_def create_table_if_not_exists_def)

lemma create_patient_database_second_call:
  "create_patient_database env' (snd (create_patient_database env db))
     = (already_exists_message, snd (create_patient_database env db))"
proof -
  obtain p m a where s: "snd (create_patient_database env db) =
      \<lparr>patients = Some p, medical_records = Some m, appointments = Some a\<rparr>"
    and rows: "tbl_rows p \<noteq> []"
    using create_patient_database_tables by blast
  show ?thesis
    unfolding s using rows by (rule create_patient_database_populated)
qed

theorem create_patient_database_existing_data:
  assumes "rows_of (patients db) \<noteq> []"
  shows "fst (create_patient_database env db) = already_exists_message
         \<and> patients (snd (create_patient_database env db)) = patients db
         \<and> rows_of (medical_records (snd (create_patient_database env db))) = rows_of (medical_records db)
         \<and> rows_of (appointments (snd (create_patient_database env db))) = rows_of (appointments db)
         \<and> (medical_records db \<noteq> None \<and> appointments db \<noteq> None
              \<longrightarrow> snd (create_patient_database env db) = db)"
proof -
  obtain p where p: "patients db = Some p" and rows: "tbl_rows p \<noteq> []"
    using assms by (cases "patients db") (simp_all add: rows_of_def)
  have r: "create_patient_database env db =
       (already_exists_message,
        \<lparr>patients = Some p,
         medical_records = Some (create_table_if_not_exists (medical_records db)),
         appointments = Some (create_table_if_not_exists (appointments db))\<rparr>)"
    using rows by (simp add: create_patient_database_def Let_def p create_table_if_not_exists_def)
  have m: "rows_of (Some (create_table_if_not_exists t)) = rows_of t" for t
    by (cases t) (simp_all add: rows_of_def create_table_if_not_exists_def empty_table_def)
  have full: "snd (create_patient_database env db) = db"
    if h: "medical_records db \<noteq> None \<and> appointments db \<noteq> None"
  proof -
    from h obtain m0 a0 where m0: "medical_records db = Some m0" and a0: "appointments db = Some a0"
      by auto
    have "snd (create_patient_database env db) =
            \<lparr>patients = patients db, medical_records = medical_records db,
             appointments = appointments db\<rparr>"
      by (simp add: r p m0 a0 create_table_if_not_exists_def)
    then show ?thesis by simp
  qed
  show ?thesis using full by (simp add: r p m)
qed

theorem create_patient_database_existing_data_witness:
  "rows_of (patients (snd (create_patient_database demo_seed_env empty_database))) \<noteq> []
   \<and> create_patient_database demo_seed_env (snd (create_patient_database demo_seed_env empty_database))
       = (already_exists_message, snd (create_patient_database demo_seed_env empty_database))"
proof -
  let ?db = "snd (create_patient_database demo_seed_env empty_database)"
  have h: "rows_of (patients ?db) \<noteq> []"
    by (simp add: create_patient_database_def Let_def empty_database_def
        create_table_if_not_exists_def empty_table_def rows_of_def executemany_def
        insert_row_def patients_data_def split: prod.splits)
  have mr: "medical_records ?db \<noteq> None \<and> appointments ?db \<noteq> None"
    by (simp add: create_patient_database_def Let_def empty_database_def
        create_table_if_not_exists_def empty_table_def split: prod.splits)
  show ?thesis
    using h mr create_patient_database_existing_data [OF h, of demo_seed_env]
    by (metis prod.collapse)
qed

end
